theory Spec2Isabelle
  imports Main "HOL-Library.Sublist"
begin

section \<open>JavaScript values and requests\<close>

text \<open>
  The two React consoles read JSON bodies of HTTP responses and store what they read in
  component state. A JSON value is one of the six JSON shapes. A number is held as the text
  JavaScript prints for it (\<open>3\<close>, \<open>2.5\<close>, \<open>1e+21\<close>): the consoles print numbers, test
  them for zero and compare them with 1, and that text decides all three. Reading a
  property that is absent yields \<open>undefined\<close>, which is not a JSON value, so the values
  held in state are \<open>jsval\<close>.
\<close>

datatype json =
    JNull
  | JBool bool
  | JNum string
  | JStr string
  | JArr "json list"
  | JObj "(string \<times> json) list"

datatype jsval = Undefined | Val json

text \<open>The exceptions that reach the \<open>catch\<close> blocks of the consoles.\<close>

datatype js_error =
    NetworkError   \<comment> \<open>\<open>fetch\<close> rejects: the request never got a response\<close>
  | SyntaxError    \<comment> \<open>\<open>r.json()\<close> rejects: the body is not JSON\<close>
  | TypeError      \<comment> \<open>a property read on \<open>null\<close>, or an object that has no text\<close>
  | InvalidChild   \<comment> \<open>React refuses an object as a child of an element\<close>

record response =
  status :: nat
  body :: "json option"   \<comment> \<open>\<open>None\<close>: the body does not parse as JSON\<close>

datatype fetch_result = Rejected | Responded response

record request =
  req_method :: string
  req_url :: string
  req_body :: "string option"

type_synonym network = "request \<Rightarrow> fetch_result"

definition get_request :: "string \<Rightarrow> request" where
  "get_request u = \<lparr>req_method = ''GET'', req_url = u, req_body = None\<rparr>"

text \<open>\<open>fetch(u).then(r => r.json())\<close>: the status code of the response is never read.\<close>

definition fetch_json :: "fetch_result \<Rightarrow> js_error + json" where
  "fetch_json fr =
     (case fr of
        Rejected \<Rightarrow> Inl NetworkError
      | Responded r \<Rightarrow> (case body r of None \<Rightarrow> Inl SyntaxError | Some v \<Rightarrow> Inr v))"

text \<open>
  \<open>v.k\<close> for a parsed JSON value \<open>v\<close> and one of the keys the consoles read
  (\<open>report\<close>, \<open>stats\<close>, \<open>generated_at\<close>, \<open>predictions\<close>, \<open>recipients\<close>,
  \<open>message_en\<close>, \<open>message_sw\<close>): \<open>null\<close> throws, an object yields the member (the last
  one when the key is repeated, as \<open>JSON.parse\<close> keeps it), every other value has no such
  property.
\<close>

definition member :: "(string \<times> json) list \<Rightarrow> string \<Rightarrow> jsval" where
  "member kvs k = (case map_of (rev kvs) k of None \<Rightarrow> Undefined | Some v \<Rightarrow> Val v)"

fun get_prop :: "json \<Rightarrow> string \<Rightarrow> js_error + jsval" where
  "get_prop JNull k = Inl TypeError"
| "get_prop (JObj kvs) k = Inr (member kvs k)"
| "get_prop v k = Inr Undefined"

fun truthy :: "jsval \<Rightarrow> bool" where
  "truthy Undefined = False"
| "truthy (Val JNull) = False"
| "truthy (Val (JBool b)) = b"
| "truthy (Val (JNum t)) = (t \<noteq> ''0'')"
| "truthy (Val (JStr s)) = (s \<noteq> [])"
| "truthy (Val (JArr xs)) = True"
| "truthy (Val (JObj kvs)) = True"

text \<open>
  The value of \<open>v.k\<close> when the read does not throw, that is for every \<open>v\<close> other than
  \<open>null\<close>.
\<close>

definition prop_of :: "json \<Rightarrow> string \<Rightarrow> jsval" where
  "prop_of v k = (case v of JObj kvs \<Rightarrow> member kvs k | _ \<Rightarrow> Undefined)"

text \<open>The operator \<open>a || b\<close>.\<close>

definition or_else :: "jsval \<Rightarrow> jsval \<Rightarrow> jsval" where
  "or_else a b = (if truthy a then a else b)"

text \<open>
  \<open>Promise.all([p, q])\<close> followed by \<open>await\<close>: the pair of results, or a rejection.
  When both promises reject, the one that rejects first in time decides the exception, so
  the rejection carries the exceptions it may be.
\<close>

definition promise_all2 :: "js_error + 'a \<Rightarrow> js_error + 'b \<Rightarrow> js_error list + ('a \<times> 'b)" where
  "promise_all2 p q =
     (case p of
        Inl e \<Rightarrow> (case q of Inl e' \<Rightarrow> Inl [e, e'] | Inr y \<Rightarrow> Inl [e])
      | Inr x \<Rightarrow> (case q of Inl e' \<Rightarrow> Inl [e'] | Inr y \<Rightarrow> Inr (x, y)))"

text \<open>
  The statements of a \<open>try\<close> block run in order on the component state; the first one that
  throws ends the block, and the state setters already called keep their effect.
\<close>

type_synonym 's stmt = "'s \<Rightarrow> js_error option \<times> 's"

definition seq :: "'s stmt \<Rightarrow> 's stmt \<Rightarrow> 's stmt" where
  "seq f g s = (case f s of (Some e, s') \<Rightarrow> (Some e, s') | (None, s') \<Rightarrow> g s')"

section \<open>The AI report page (AIReport.jsx)\<close>

record ai_report =
  report :: jsval
  predictions :: jsval
  stats :: jsval
  loading :: bool
  tab :: string
  generatedAt :: jsval

definition ai_report_init :: ai_report where
  "ai_report_init =
     \<lparr>report = Val JNull, predictions = Val (JArr []), stats = Val JNull,
      loading = False, tab = ''sitRep'', generatedAt = Val JNull\<rparr>"

text \<open>The state setters of the page.\<close>

definition setReport :: "jsval \<Rightarrow> ai_report \<Rightarrow> ai_report" where
  "setReport v s = s\<lparr>report := v\<rparr>"

definition setStats :: "jsval \<Rightarrow> ai_report \<Rightarrow> ai_report" where
  "setStats v s = s\<lparr>stats := v\<rparr>"

definition setGeneratedAt :: "jsval \<Rightarrow> ai_report \<Rightarrow> ai_report" where
  "setGeneratedAt v s = s\<lparr>generatedAt := v\<rparr>"

definition setPredictions :: "jsval \<Rightarrow> ai_report \<Rightarrow> ai_report" where
  "setPredictions v s = s\<lparr>predictions := v\<rparr>"

definition setLoading :: "bool \<Rightarrow> ai_report \<Rightarrow> ai_report" where
  "setLoading b s = s\<lparr>loading := b\<rparr>"

text \<open>
  The statement \<open>setter(obj.key)\<close>: the property is read first, and the setter is not
  called when the read throws.
\<close>

definition call_with_prop :: "(jsval \<Rightarrow> 's \<Rightarrow> 's) \<Rightarrow> json \<Rightarrow> string \<Rightarrow> 's stmt" where
  "call_with_prop setter obj k s =
     (case get_prop obj k of
        Inl e \<Rightarrow> (Some e, s)
      | Inr v \<Rightarrow> (None, setter v s))"

text \<open>
  \<open>loadAll\<close>: both requests are issued, \<open>Promise.all\<close> awaits them, the four setters run,
  \<open>catch\<close> logs the exception, \<open>finally\<close> clears \<open>loading\<close>. The result is the state
  after the call and the exceptions of which one is passed to \<open>console.error\<close> (none is
  logged when the list is empty; it has two members only when both requests reject).
\<close>

definition loadAll :: "string \<Rightarrow> network \<Rightarrow> ai_report \<Rightarrow> ai_report \<times> js_error list" where
  "loadAll api net s0 =
     (let s1 = setLoading True s0;
          natP = fetch_json (net (get_request (api @ ''/report/national'')));
          predP = fetch_json (net (get_request (api @ ''/predict'')));
          (logged, s2) =
            (case promise_all2 natP predP of
               Inl es \<Rightarrow> (es, s1)
             | Inr (natRes, predRes) \<Rightarrow>
                 (case seq (call_with_prop setReport natRes ''report'')
                        (seq (call_with_prop setStats natRes ''stats'')
                          (seq (call_with_prop setGeneratedAt natRes ''generated_at'')
                               (call_with_prop (\<lambda>v. setPredictions (or_else v (Val (JArr []))))
                                  predRes ''predictions''))) s1 of
                    (None, s') \<Rightarrow> ([], s')
                  | (Some e, s') \<Rightarrow> ([e], s')))
      in (setLoading False s2, logged))"

text \<open>
  The promise of a request of the page rejects when there is no response or when the body
  is not JSON. This is the only failure the page takes notice of: the status code of a
  response is not read.
\<close>

definition request_rejects :: "network \<Rightarrow> string \<Rightarrow> bool" where
  "request_rejects net u = isl (fetch_json (net (get_request u)))"

text \<open>The part of the state that holds what the two requests returned.\<close>

definition snapshot :: "ai_report \<Rightarrow> jsval \<times> jsval \<times> jsval \<times> jsval" where
  "snapshot s = (predictions s, report s, stats s, generatedAt s)"

section \<open>Numbers and strings\<close>

definition digit_char :: "nat \<Rightarrow> char" where
  "digit_char d = ''0123456789'' ! (d mod 10)"

function show_nat :: "nat \<Rightarrow> string" where
  "show_nat n = (if n < 10 then [digit_char n] else show_nat (n div 10) @ [digit_char (n mod 10)])"
  by pat_completeness auto
termination
  by (relation "measure id") auto

declare show_nat.simps [simp del]

definition show_int :: "int \<Rightarrow> string" where
  "show_int i = (if i < 0 then CHR ''-'' # show_nat (nat (- i)) else show_nat (nat i))"

fun join_comma :: "string list \<Rightarrow> string" where
  "join_comma [] = []"
| "join_comma [x] = x"
| "join_comma (x # y # ys) = x @ CHR '','' # join_comma (y # ys)"

text \<open>
  The conversion to a string that a template literal \<open>`${v}`\<close> applies. An object is
  \<open>[object Object]\<close> through the method \<open>toString\<close> it inherits; an object with a member
  of its own named \<open>toString\<close> has that member in the place of the method, a JSON value is
  not callable, and the conversion throws a \<open>TypeError\<close>. An array is its elements joined
  by commas, with \<open>null\<close> elements shown as empty; it throws when an element does.
\<close>

fun json_to_string :: "json \<Rightarrow> js_error + string"
  and elements_to_strings :: "json list \<Rightarrow> js_error + string list" where
  "json_to_string JNull = Inr ''null''"
| "json_to_string (JBool b) = Inr (if b then ''true'' else ''false'')"
| "json_to_string (JNum t) = Inr t"
| "json_to_string (JStr s) = Inr s"
| "json_to_string (JArr xs) =
     (case elements_to_strings xs of Inl e \<Rightarrow> Inl e | Inr ts \<Rightarrow> Inr (join_comma ts))"
| "json_to_string (JObj kvs) =
     (if ''toString'' \<in> set (map fst kvs) then Inl TypeError else Inr ''[object Object]'')"
| "elements_to_strings [] = Inr []"
| "elements_to_strings (x # xs) =
     (case (if x = JNull then Inr [] else json_to_string x) of
        Inl e \<Rightarrow> Inl e
      | Inr t \<Rightarrow> (case elements_to_strings xs of Inl e \<Rightarrow> Inl e | Inr ts \<Rightarrow> Inr (t # ts)))"

fun to_string :: "jsval \<Rightarrow> js_error + string" where
  "to_string Undefined = Inr ''undefined''"
| "to_string (Val v) = json_to_string v"

text \<open>
  \<open>parseInt(s)\<close> without a radix: leading white space is skipped, a sign is read, a
  \<open>0x\<close> prefix selects base 16, and the longest run of digits is the value; \<open>None\<close> is
  \<open>NaN\<close>. (White space is the ASCII white space; the value is exact, as the one of
  JavaScript is below \<open>2 ^ 53\<close>.)
\<close>

definition is_white :: "char \<Rightarrow> bool" where
  "is_white c = (c \<in> set [CHR '' '', CHR 0x09, CHR 0x0A, CHR 0x0B, CHR 0x0C, CHR 0x0D])"

definition digit_of :: "char \<Rightarrow> nat option" where
  "digit_of c =
     (let n = (of_char c :: nat) in
      if 48 \<le> n \<and> n \<le> 57 then Some (n - 48)
      else if 97 \<le> n \<and> n \<le> 122 then Some (n - 87)
      else if 65 \<le> n \<and> n \<le> 90 then Some (n - 55)
      else None)"

definition is_digit :: "nat \<Rightarrow> char \<Rightarrow> bool" where
  "is_digit radix c = (case digit_of c of None \<Rightarrow> False | Some d \<Rightarrow> d < radix)"

definition digits_value :: "nat \<Rightarrow> string \<Rightarrow> nat" where
  "digits_value radix ds = foldl (\<lambda>acc c. acc * radix + (case digit_of c of None \<Rightarrow> 0 | Some d \<Rightarrow> d)) 0 ds"

definition parseInt :: "string \<Rightarrow> int option" where
  "parseInt s =
     (let s1 = dropWhile is_white s;
          neg = (take 1 s1 = ''-'');
          s2 = (if take 1 s1 = ''-'' \<or> take 1 s1 = ''+'' then drop 1 s1 else s1);
          hex = (take 2 s2 = ''0x'' \<or> take 2 s2 = ''0X'');
          radix = (if hex then 16 else 10);
          s3 = (if hex then drop 2 s2 else s2);
          ds = takeWhile (is_digit radix) s3
      in if ds = [] then None
         else Some (if neg then - int (digits_value radix ds) else int (digits_value radix ds)))"

section \<open>The alert console (AlertConsole)\<close>

record toast_rec =
  msg :: string
  toast_type :: string

record alert_console =
  disasters :: jsval
  disId :: string
  preview :: jsval
  pastAlerts :: jsval
  loading_ac :: bool
  generating :: bool
  toast :: "toast_rec option"
  sending :: bool

definition alert_console_init :: alert_console where
  "alert_console_init =
     \<lparr>disasters = Val (JArr []), disId = [], preview = Val JNull, pastAlerts = Val (JArr []),
      loading_ac = False, generating = False, toast = None, sending = False\<rparr>"

text \<open>The two marks of the toast texts, as their UTF-8 bytes.\<close>

definition check_mark :: string where
  "check_mark = [CHR 0xE2, CHR 0x9C, CHR 0x85]"

definition cross_mark :: string where
  "cross_mark = [CHR 0xE2, CHR 0x9D, CHR 0x8C]"

text \<open>
  \<open>showToast(msg, type = 'success')\<close>; the timer that clears the toast four seconds
  later is outside the model, which gives the state when the handler has finished.
\<close>

definition showToast :: "string \<Rightarrow> string \<Rightarrow> alert_console \<Rightarrow> alert_console" where
  "showToast m t s = s\<lparr>toast := Some \<lparr>msg = m, toast_type = t\<rparr>\<rparr>"

text \<open>
  The text of the success toast for the value \<open>r\<close> of \<open>data.recipients\<close> and its
  conversion \<open>t\<close> to a string.
\<close>

definition sent_message :: "jsval \<Rightarrow> string \<Rightarrow> string" where
  "sent_message r t =
     check_mark @ '' Alert sent to '' @ t @ '' recipient''
       @ (if r \<noteq> Val (JNum ''1'') then ''s'' else [])"

text \<open>\<open>JSON.stringify({ disaster_id: parseInt(disId) })\<close>; \<open>NaN\<close> is written \<open>null\<close>.\<close>

definition send_body :: "string \<Rightarrow> string" where
  "send_body d =
     ''{'' @ [CHR 0x22] @ ''disaster_id'' @ [CHR 0x22] @ '':''
       @ (case parseInt d of None \<Rightarrow> ''null'' | Some n \<Rightarrow> show_int n) @ ''}''"

definition send_request :: "string \<Rightarrow> string \<Rightarrow> request" where
  "send_request api d =
     \<lparr>req_method = ''POST'', req_url = api @ ''/alert/send'', req_body = Some (send_body d)\<rparr>"

text \<open>
  \<open>fetch(`${api}/alerts`).then(r => r.json()).then(setPastAlerts).catch(() => { })\<close>:
  the list is replaced when the request yields JSON and kept otherwise.
\<close>

definition refreshPastAlerts :: "string \<Rightarrow> network \<Rightarrow> alert_console \<Rightarrow> alert_console" where
  "refreshPastAlerts api net s =
     (case fetch_json (net (get_request (api @ ''/alerts''))) of
        Inl e \<Rightarrow> s
      | Inr v \<Rightarrow> s\<lparr>pastAlerts := Val v\<rparr>)"

text \<open>
  \<open>generatePreview\<close>, the handler of the button \<open>send-alert-btn\<close>. The result is the state
  after the call and the requests the call issued, in order.
\<close>

definition generatePreview ::
  "string \<Rightarrow> network \<Rightarrow> alert_console \<Rightarrow> alert_console \<times> request list" where
  "generatePreview api net s0 =
     (if disId s0 = [] then (s0, [])
      else
        let s1 = s0\<lparr>generating := True, preview := Val JNull\<rparr>;
            post = send_request api (disId s0)
        in case fetch_json (net post) of
             Inl e \<Rightarrow>
               ((showToast (cross_mark @ '' Failed to send alert'') ''error'' s1)
                  \<lparr>generating := False\<rparr>, [post])
           | Inr data \<Rightarrow>
               let s2 = s1\<lparr>preview := Val data\<rparr>;
                   s3 = refreshPastAlerts api net s2;
                   issued = [post, get_request (api @ ''/alerts'')]
               in case get_prop data ''recipients'' of
                    Inl e \<Rightarrow>
                      ((showToast (cross_mark @ '' Failed to send alert'') ''error'' s3)
                         \<lparr>generating := False\<rparr>, issued)
                  | Inr r \<Rightarrow>
                      (case to_string r of
                         Inl e \<Rightarrow>
                           ((showToast (cross_mark @ '' Failed to send alert'') ''error'' s3)
                              \<lparr>generating := False\<rparr>, issued)
                       | Inr t \<Rightarrow>
                           ((showToast (sent_message r t) ''success'' s3)
                              \<lparr>generating := False\<rparr>, issued)))"





section \<open>The boundary download script\<close>

definition url :: string where
  "url = ''https://data.humdata.org/dataset/02ec0e4c-ec76-4d04-ab4f-801fc1caaa38/resource/820061fa-8a03-455b-af86-d922aeb14cf0/download/ken_admbnda_adm1_iebc_20191031.geojson''"

definition fallbackUrl :: string where
  "fallbackUrl = ''https://data.humdata.org/dataset/02ec0e4c-ec76-4d04-ab4f-801fc1caaa38/resource/820061fa-8a03-455b-af86-d922aeb14cf0/download/ken_admbnda_adm1_iebc_20191031.geojson''"

text \<open>
  What one call of \<open>https.get\<close> leads to: the \<open>error\<close> event with its message, or a
  response with its status code and content. The environment gives the outcome of a
  request from its address and the number of requests made before it.
\<close>

datatype get_outcome = GetError string | GetResponse nat string

type_synonym https = "string \<Rightarrow> nat \<Rightarrow> get_outcome"

record script_state =
  console :: "string list"               \<comment> \<open>the lines printed, in order\<close>
  requested :: "string list"             \<comment> \<open>the addresses requested, in order\<close>
  files :: "(string \<times> string) list"      \<comment> \<open>the files written: path and content\<close>

definition script_init :: script_state where
  "script_init = \<lparr>console = [], requested = [], files = []\<rparr>"

definition log :: "string \<Rightarrow> script_state \<Rightarrow> script_state" where
  "log line s = s\<lparr>console := console s @ [line]\<rparr>"

function download ::
  "https \<Rightarrow> string \<Rightarrow> string \<Rightarrow> (script_state \<Rightarrow> script_state) \<Rightarrow> script_state \<Rightarrow> script_state" where
  "download get u dest cb s =
     (let s1 = (log (''Downloading from: '' @ u) s)\<lparr>requested := requested s @ [u]\<rparr>
      in case get u (length (requested s)) of
           GetError m \<Rightarrow> log (''Error: '' @ m) s1
         | GetResponse code content \<Rightarrow>
             if code \<noteq> 200 then
               (if u = fallbackUrl then cb (log (''Failed: '' @ show_nat code) s1)
                else download get fallbackUrl dest cb (log (''Failed: '' @ show_nat code) s1))
             else
               cb (log (''Downloaded successfully to '' @ dest)
                     (s1\<lparr>files := files s1 @ [(dest, content)]\<rparr>)))"
  by pat_completeness auto
termination
  by (relation "measure (\<lambda>(get, u, dest, cb, s). if u = fallbackUrl then 0 else 1)") auto

declare download.simps [simp del]

text \<open>The callback of the script, \<open>() => console.log('Done')\<close>, and the script's one call.\<close>

definition done_cb :: "script_state \<Rightarrow> script_state" where
  "done_cb s = log ''Done'' s"

definition run_script :: "https \<Rightarrow> script_state" where
  "run_script get = download get url ''./public/kenya-counties.json'' done_cb script_init"

section \<open>Concrete environments\<close>

text \<open>
  A network given by a table from addresses to outcomes (an address that is not listed
  gets no response), a response with status 200 and a JSON body, and a server that
  answers every download request with the same status code.
\<close>

definition net_of :: "(string \<times> fetch_result) list \<Rightarrow> network" where
  "net_of tbl r = (case map_of tbl (req_url r) of None \<Rightarrow> Rejected | Some fr \<Rightarrow> fr)"

definition ok_json :: "json \<Rightarrow> fetch_result" where
  "ok_json v = Responded \<lparr>status = 200, body = Some v\<rparr>"

definition always_status :: "nat \<Rightarrow> https" where
  "always_status code u n = GetResponse code []"

section \<open>Alert Dispatcher: length of the generated messages\<close>










section \<open>Disasters, observations and workers\<close>

text \<open>
  Modelled from the spec: the enumerations and entities of section 3 that the Collector and
  the Dispatch Recommender read and write (neither component is among the source files).
  Of each entity the fields are those the two components use; coordinates are a pair of
  integers.
\<close>

datatype disaster_type = Flood | Wildfire | Earthquake | Drought | Landslide | Other

datatype disaster_status = Active | Resolved

datatype origin = AutoDetected | FieldReported

datatype source_kind = Weather | Fire | Seismic | Forecast | FieldReport

datatype payload = Rainfall int | Hotspots int | Magnitude int | Opaque

datatype worker_status = Available | Deployed

type_synonym coords = "int \<times> int"

record disaster =
  d_id :: nat
  d_type :: disaster_type
  d_region :: nat
  d_coords :: coords
  d_origin :: origin
  d_status :: disaster_status

record observation =
  source :: source_kind
  obs_region :: nat
  obs_payload :: payload

record worker =
  w_id :: nat
  w_role :: string
  w_status :: worker_status
  w_coords :: coords

section \<open>Collector: threshold rules\<close>

text \<open>
  Modelled from the spec: the configuration of the threshold rules of the Collector
  (section 4.1: rainfall above X, fire hotspot count above Y, seismic magnitude above Z),
  with the centroids of the Region Registry. The Collector is not among the source files.
\<close>

record collector_config =
  rainfall_x :: int
  hotspots_y :: int
  magnitude_z :: int
  centroid :: "nat \<Rightarrow> coords"

text \<open>
  Modelled from the spec: the threshold rules of the Collector (section 4.1), which is not
  among the source files: the type of disaster an observation calls for, if any.
\<close>

definition exceeded :: "collector_config \<Rightarrow> observation \<Rightarrow> disaster_type option" where
  "exceeded cfg ob =
     (case (source ob, obs_payload ob) of
        (Weather, Rainfall x) \<Rightarrow> if rainfall_x cfg < x then Some Flood else None
      | (Fire, Hotspots n) \<Rightarrow> if hotspots_y cfg < n then Some Wildfire else None
      | (Seismic, Magnitude m) \<Rightarrow> if magnitude_z cfg < m then Some Earthquake else None
      | _ \<Rightarrow> None)"

text \<open>
  Modelled from the spec: the test of section 4.1 for an open Disaster of the same type in
  the same region. The Collector is not among the source files.
\<close>

definition is_open :: "nat \<Rightarrow> disaster_type \<Rightarrow> disaster \<Rightarrow> bool" where
  "is_open r t d = (d_status d = Active \<and> d_type d = t \<and> d_region d = r)"

text \<open>
  Modelled from the spec: an identity not yet used by a stored Disaster. The store is not
  among the source files.
\<close>

definition fresh_id :: "disaster list \<Rightarrow> nat" where
  "fresh_id ds = Suc (foldr max (map d_id ds) 0)"

text \<open>
  Modelled from the spec: the automatic creation of a Disaster by the Collector (section
  4.1), which is not among the source files: an observation above its threshold creates an
  active, auto-detected Disaster when no open Disaster of that type exists for the region.
\<close>

definition auto_create :: "collector_config \<Rightarrow> disaster list \<Rightarrow> observation \<Rightarrow> disaster list" where
  "auto_create cfg ds ob =
     (case exceeded cfg ob of
        None \<Rightarrow> ds
      | Some t \<Rightarrow>
          if list_ex (is_open (obs_region ob) t) ds then ds
          else ds @ [\<lparr>d_id = fresh_id ds, d_type = t, d_region = obs_region ob,
                       d_coords = centroid cfg (obs_region ob), d_origin = AutoDetected,
                       d_status = Active\<rparr>])"

text \<open>
  Modelled from the spec: the last step of a Collector cycle (section 4.1), which is not
  among the source files: the threshold rules are evaluated on the observations of the
  cycle, one after the other.
\<close>

definition evaluate_thresholds ::
  "collector_config \<Rightarrow> disaster list \<Rightarrow> observation list \<Rightarrow> disaster list" where
  "evaluate_thresholds cfg ds obs = foldl (auto_create cfg) ds obs"

text \<open>The number of open Disasters of a type in a region.\<close>

definition count_open :: "nat \<Rightarrow> disaster_type \<Rightarrow> disaster list \<Rightarrow> nat" where
  "count_open r t ds = length (filter (is_open r t) ds)"

text \<open>Thresholds for the examples, and a weather observation of 120 mm of rain in region 4.\<close>

definition example_config :: collector_config where
  "example_config =
     \<lparr>rainfall_x = 100, hotspots_y = 5, magnitude_z = 4, centroid = (\<lambda>r. (0, 0))\<rparr>"

definition heavy_rain :: observation where
  "heavy_rain = \<lparr>source = Weather, obs_region = 4, obs_payload = Rainfall 120\<rparr>"

section \<open>Dispatch Recommender\<close>

text \<open>
  Modelled from the spec: the parameters of the composite score of the Dispatch Recommender
  (section 4.6), which is not among the source files: the suitability of a role for a type
  of disaster, the distance between two coordinates in kilometres, and the weights of the
  two.
\<close>

record policy =
  suitability :: "string \<Rightarrow> disaster_type \<Rightarrow> int"
  distance :: "coords \<Rightarrow> coords \<Rightarrow> int"
  role_weight :: int
  distance_weight :: int

text \<open>
  Modelled from the spec: the composite score of the Dispatch Recommender (section 4.6),
  which is not among the source files: suitability counts for, distance counts against.
\<close>

definition composite_score :: "policy \<Rightarrow> disaster \<Rightarrow> worker \<Rightarrow> int" where
  "composite_score p dis w =
     role_weight p * suitability p (w_role w) (d_type dis)
       - distance_weight p * distance p (w_coords w) (d_coords dis)"

text \<open>
  Modelled from the spec: the ranking of the Dispatch Recommender (section 4.6), which is
  not among the source files: the available Workers, by falling composite score.
\<close>

definition rank_candidates :: "policy \<Rightarrow> disaster \<Rightarrow> worker list \<Rightarrow> worker list" where
  "rank_candidates p dis ws =
     sort_key (\<lambda>w. - composite_score p dis w) (filter (\<lambda>w. w_status w = Available) ws)"

text \<open>
  Modelled from the spec: the mark on the top candidate (section 4.6). The Dispatch
  Recommender is not among the source files.
\<close>

fun mark_top :: "worker list \<Rightarrow> (worker \<times> bool) list" where
  "mark_top [] = []"
| "mark_top (w # ws) = (w, True) # map (\<lambda>x. (x, False)) ws"

text \<open>
  Modelled from the spec: the operation of the Dispatch Recommender (section 4.6), which is
  not among the source files: the ranked list with the top candidate marked as recommended.
\<close>

definition recommend :: "policy \<Rightarrow> disaster \<Rightarrow> worker list \<Rightarrow> (worker \<times> bool) list" where
  "recommend p dis ws = mark_top (rank_candidates p dis ws)"

text \<open>
  A policy for the examples (rescue divers suit floods, distance along the grid, weights 3
  and 1), a flood, and three available workers at 2, 1 and 5 kilometres.
\<close>

definition example_policy :: policy where
  "example_policy =
     \<lparr>suitability = (\<lambda>r t. if r = ''diver'' \<and> t = Flood then 1 else 0),
      distance = (\<lambda>a b. \<bar>fst a - fst b\<bar> + \<bar>snd a - snd b\<bar>),
      role_weight = 3, distance_weight = 1\<rparr>"

definition example_flood :: disaster where
  "example_flood =
     \<lparr>d_id = 1, d_type = Flood, d_region = 4, d_coords = (0, 0), d_origin = AutoDetected,
      d_status = Active\<rparr>"

definition worker_2km :: worker where
  "worker_2km = \<lparr>w_id = 1, w_role = ''diver'', w_status = Available, w_coords = (2, 0)\<rparr>"

definition worker_1km :: worker where
  "worker_1km = \<lparr>w_id = 2, w_role = ''driver'', w_status = Available, w_coords = (0, 1)\<rparr>"

definition worker_5km :: worker where
  "worker_5km = \<lparr>w_id = 3, w_role = ''diver'', w_status = Available, w_coords = (3, 2)\<rparr>"

section \<open>Properties of the AI report page\<close>

text \<open>The status code of a response has no part in what a request yields.\<close>

lemma fetch_json_ignores_status:
  "fetch_json (Responded \<lparr>status = a, body = b\<rparr>) = fetch_json (Responded \<lparr>status = c, body = b\<rparr>)"
  by (simp add: fetch_json_def)

lemma promise_all2_right_fails: "isl q \<Longrightarrow> isl (promise_all2 p q)"
  by (cases p; cases q) (simp_all add: promise_all2_def)

lemma promise_all2_left_fails: "isl p \<Longrightarrow> isl (promise_all2 p q)"
  by (cases p; cases q) (simp_all add: promise_all2_def)

lemma get_prop_not_null: "v \<noteq> JNull \<Longrightarrow> get_prop v k = Inr (prop_of v k)"
  by (cases v) (simp_all add: prop_of_def)

lemma loadAll_rejected:
  assumes "isl (promise_all2 (fetch_json (net (get_request (api @ ''/report/national''))))
                  (fetch_json (net (get_request (api @ ''/predict'')))))"
  shows "fst (loadAll api net s) = s\<lparr>loading := False\<rparr>"
proof -
  from assms obtain e where
    "promise_all2 (fetch_json (net (get_request (api @ ''/report/national''))))
        (fetch_json (net (get_request (api @ ''/predict'')))) = Inl e"
    by (auto simp: isl_def)
  then show ?thesis
    by (simp add: loadAll_def setLoading_def)
qed

text \<open>Both requests yield JSON: what the four statements of the \<open>try\<close> block leave.\<close>

lemma loadAll_resolved:
  assumes "fetch_json (net (get_request (api @ ''/report/national''))) = Inr natRes"
    and "fetch_json (net (get_request (api @ ''/predict''))) = Inr predRes"
  shows "fst (loadAll api net s) =
           (if natRes = JNull then s\<lparr>loading := False\<rparr>
            else if predRes = JNull then
              s\<lparr>report := prop_of natRes ''report'', stats := prop_of natRes ''stats'',
                generatedAt := prop_of natRes ''generated_at'', loading := False\<rparr>
            else
              s\<lparr>report := prop_of natRes ''report'', stats := prop_of natRes ''stats'',
                generatedAt := prop_of natRes ''generated_at'',
                predictions := or_else (prop_of predRes ''predictions'') (Val (JArr [])),
                loading := False\<rparr>)"
proof (cases "natRes = JNull")
  case True
  then show ?thesis
    using assms
    by (simp add: loadAll_def promise_all2_def seq_def call_with_prop_def setLoading_def)
next
  case n: False
  show ?thesis
  proof (cases "predRes = JNull")
    case True
    then show ?thesis
      using assms n
      by (simp add: loadAll_def promise_all2_def seq_def call_with_prop_def setLoading_def
          setReport_def setStats_def setGeneratedAt_def get_prop_not_null)
  next
    case False
    then show ?thesis
      using assms n
      by (simp add: loadAll_def promise_all2_def seq_def call_with_prop_def setLoading_def
          setReport_def setStats_def setGeneratedAt_def setPredictions_def get_prop_not_null)
  qed
qed

text \<open>
  Counterexample to C4 as stated: the predictions call fails and the backend answers with
  status 500 and the JSON body of an error message; the page held the prediction \<open>P\<close> and
  holds the empty list afterwards.
\<close>

theorem loadAll_error_status_counterexample:
  "predictions (ai_report_init\<lparr>predictions := Val (JArr [JStr ''P''])\<rparr>) = Val (JArr [JStr ''P''])
   \<and> snapshot (fst (loadAll ''/api''
        (net_of [(''/api/report/national'', ok_json (JObj [(''report'', JStr ''R'')])),
                 (''/api/predict'',
                  Responded \<lparr>status = 500,
                             body = Some (JObj [(''detail'', JStr ''prediction failed'')])\<rparr>)])
        (ai_report_init\<lparr>predictions := Val (JArr [JStr ''P''])\<rparr>)))
     = (Val (JArr []), Val (JStr ''R''), Undefined, Undefined)"
  by (simp add: net_of_def get_request_def fetch_json_def ok_json_def loadAll_def
      promise_all2_def seq_def call_with_prop_def setLoading_def setReport_def setStats_def
      setGeneratedAt_def setPredictions_def member_def or_else_def snapshot_def
      ai_report_init_def)

text \<open>
  C4, amended. When the predictions request of a refresh rejects (no response, or a body
  that is not JSON), the page keeps what it held: the predictions, the report, the
  statistics and the generation time are those of before the call, and only \<open>loading\<close> is
  cleared. A failure that arrives as a response with a JSON body is not taken for one, as
  the status code is not read: when both requests answer with JSON objects, whatever their
  status codes, the predictions become the \<open>predictions\<close> member of the body, or the empty
  list when it has none, and the report, statistics and generation time become the members
  of the national body.
\<close>

theorem loadAll_keeps_snapshot_on_rejection:
  "(request_rejects net (api @ ''/predict'')
      \<longrightarrow> fst (loadAll api net s) = s\<lparr>loading := False\<rparr>
          \<and> snapshot (fst (loadAll api net s)) = snapshot s)
   \<and> (net (get_request (api @ ''/report/national''))
          = Responded \<lparr>status = a, body = Some (JObj nkvs)\<rparr>
      \<and> net (get_request (api @ ''/predict''))
          = Responded \<lparr>status = c, body = Some (JObj pkvs)\<rparr>
      \<longrightarrow> snapshot (fst (loadAll api net s)) =
            (or_else (member pkvs ''predictions'') (Val (JArr [])),
             member nkvs ''report'', member nkvs ''stats'', member nkvs ''generated_at''))"
proof (intro conjI impI)
  assume "request_rejects net (api @ ''/predict'')"
  then have "isl (promise_all2 (fetch_json (net (get_request (api @ ''/report/national''))))
                  (fetch_json (net (get_request (api @ ''/predict'')))))"
    by (simp add: request_rejects_def promise_all2_right_fails)
  then show "fst (loadAll api net s) = s\<lparr>loading := False\<rparr>"
    by (rule loadAll_rejected)
  then show "snapshot (fst (loadAll api net s)) = snapshot s"
    by (simp add: snapshot_def)
next
  assume h: "net (get_request (api @ ''/report/national''))
          = Responded \<lparr>status = a, body = Some (JObj nkvs)\<rparr>
      \<and> net (get_request (api @ ''/predict''))
          = Responded \<lparr>status = c, body = Some (JObj pkvs)\<rparr>"
  then have "fetch_json (net (get_request (api @ ''/report/national''))) = Inr (JObj nkvs)"
    and "fetch_json (net (get_request (api @ ''/predict''))) = Inr (JObj pkvs)"
    by (simp_all add: fetch_json_def)
  then show "snapshot (fst (loadAll api net s)) =
            (or_else (member pkvs ''predictions'') (Val (JArr [])),
             member nkvs ''report'', member nkvs ''stats'', member nkvs ''generated_at'')"
    by (simp add: loadAll_resolved snapshot_def prop_of_def)
qed

text \<open>
  Witness for the amended C4: with the predictions request unanswered the page keeps the
  prediction it held; with both requests answered by status 500 and an error object, the
  predictions become the empty list and the report state is undefined.
\<close>

theorem loadAll_keeps_snapshot_on_rejection_witness:
  "request_rejects (net_of [(''/api/report/national'', ok_json (JObj [(''report'', JStr ''R'')]))])
     (''/api'' @ ''/predict'')
   \<and> snapshot (fst (loadAll ''/api''
        (net_of [(''/api/report/national'', ok_json (JObj [(''report'', JStr ''R'')]))])
        (ai_report_init\<lparr>predictions := Val (JArr [JStr ''P''])\<rparr>)))
     = (Val (JArr [JStr ''P'']), Val JNull, Val JNull, Val JNull)
   \<and> net_of [(''/api/report/national'',
               Responded \<lparr>status = 500, body = Some (JObj [(''detail'', JStr ''down'')])\<rparr>),
              (''/api/predict'',
               Responded \<lparr>status = 500, body = Some (JObj [(''detail'', JStr ''down'')])\<rparr>)]
        (get_request (''/api'' @ ''/report/national''))
     = Responded \<lparr>status = 500, body = Some (JObj [(''detail'', JStr ''down'')])\<rparr>
   \<and> net_of [(''/api/report/national'',
               Responded \<lparr>status = 500, body = Some (JObj [(''detail'', JStr ''down'')])\<rparr>),
              (''/api/predict'',
               Responded \<lparr>status = 500, body = Some (JObj [(''detail'', JStr ''down'')])\<rparr>)]
        (get_request (''/api'' @ ''/predict''))
     = Responded \<lparr>status = 500, body = Some (JObj [(''detail'', JStr ''down'')])\<rparr>
   \<and> snapshot (fst (loadAll ''/api''
        (net_of [(''/api/report/national'',
                  Responded \<lparr>status = 500, body = Some (JObj [(''detail'', JStr ''down'')])\<rparr>),
                 (''/api/predict'',
                  Responded \<lparr>status = 500, body = Some (JObj [(''detail'', JStr ''down'')])\<rparr>)])
        (ai_report_init\<lparr>predictions := Val (JArr [JStr ''P''])\<rparr>)))
     = (Val (JArr []), Undefined, Undefined, Undefined)"
  using loadAll_keeps_snapshot_on_rejection
    [where net = "net_of [(''/api/report/national'', ok_json (JObj [(''report'', JStr ''R'')]))]"
       and api = "''/api''" and s = "ai_report_init\<lparr>predictions := Val (JArr [JStr ''P''])\<rparr>"]
    loadAll_keeps_snapshot_on_rejection
    [where net = "net_of [(''/api/report/national'',
                  Responded \<lparr>status = 500, body = Some (JObj [(''detail'', JStr ''down'')])\<rparr>),
                 (''/api/predict'',
                  Responded \<lparr>status = 500, body = Some (JObj [(''detail'', JStr ''down'')])\<rparr>)]"
       and api = "''/api''" and a = 500 and c = 500
       and nkvs = "[(''detail'', JStr ''down'')]" and pkvs = "[(''detail'', JStr ''down'')]"
       and s = "ai_report_init\<lparr>predictions := Val (JArr [JStr ''P''])\<rparr>"]
  by (simp add: request_rejects_def net_of_def get_request_def fetch_json_def snapshot_def
      ai_report_init_def member_def or_else_def)

text \<open>
  Counterexample to C5 as stated: the predictions request gets a malformed response, a
  body that is not JSON; the national report request succeeds with the report \<open>R\<close>, and the
  report is not applied.
\<close>

theorem loadAll_sibling_counterexample:
  "fetch_json (net_of [(''/api/report/national'', ok_json (JObj [(''report'', JStr ''R'')])),
                       (''/api/predict'', Responded \<lparr>status = 200, body = None\<rparr>)]
        (get_request ''/api/predict'')) = Inl SyntaxError
   \<and> fetch_json (net_of [(''/api/report/national'', ok_json (JObj [(''report'', JStr ''R'')])),
                       (''/api/predict'', Responded \<lparr>status = 200, body = None\<rparr>)]
        (get_request ''/api/report/national'')) = Inr (JObj [(''report'', JStr ''R'')])
   \<and> report (fst (loadAll ''/api''
        (net_of [(''/api/report/national'', ok_json (JObj [(''report'', JStr ''R'')])),
                 (''/api/predict'', Responded \<lparr>status = 200, body = None\<rparr>)])
        ai_report_init)) = Val JNull"
  by (simp add: net_of_def get_request_def fetch_json_def ok_json_def
      loadAll_def promise_all2_def ai_report_init_def setLoading_def)

text \<open>
  C5, amended. The two requests of a refresh are awaited together. When either of them
  rejects (no response, or a malformed response whose body is not JSON), no result is
  applied: the predictions, the report, the statistics and the generation time keep their
  previous values, so a failure of the predictions request prevents the national report
  from being applied, and the other way round. When both bodies are JSON: a national body
  \<open>null\<close> leaves all four as they were; any other national body is applied to the report,
  the statistics and the generation time, and the predictions are applied with it unless
  the predictions body is \<open>null\<close>, which alone is skipped.
\<close>

theorem loadAll_applies_together:
  "(request_rejects net (api @ ''/report/national'') \<or> request_rejects net (api @ ''/predict'')
      \<longrightarrow> snapshot (fst (loadAll api net s)) = snapshot s)
   \<and> (fetch_json (net (get_request (api @ ''/report/national''))) = Inr natRes
      \<and> fetch_json (net (get_request (api @ ''/predict''))) = Inr predRes
      \<longrightarrow> snapshot (fst (loadAll api net s)) =
            (if natRes = JNull then snapshot s
             else ((if predRes = JNull then predictions s
                    else or_else (prop_of predRes ''predictions'') (Val (JArr []))),
                   prop_of natRes ''report'', prop_of natRes ''stats'',
                   prop_of natRes ''generated_at'')))"
proof (intro conjI impI)
  assume "request_rejects net (api @ ''/report/national'') \<or> request_rejects net (api @ ''/predict'')"
  then have "isl (promise_all2 (fetch_json (net (get_request (api @ ''/report/national''))))
                  (fetch_json (net (get_request (api @ ''/predict'')))))"
    by (auto simp: request_rejects_def intro: promise_all2_left_fails promise_all2_right_fails)
  then have "fst (loadAll api net s) = s\<lparr>loading := False\<rparr>"
    by (rule loadAll_rejected)
  then show "snapshot (fst (loadAll api net s)) = snapshot s"
    by (simp add: snapshot_def)
next
  assume "fetch_json (net (get_request (api @ ''/report/national''))) = Inr natRes
      \<and> fetch_json (net (get_request (api @ ''/predict''))) = Inr predRes"
  then show "snapshot (fst (loadAll api net s)) =
            (if natRes = JNull then snapshot s
             else ((if predRes = JNull then predictions s
                    else or_else (prop_of predRes ''predictions'') (Val (JArr []))),
                   prop_of natRes ''report'', prop_of natRes ''stats'',
                   prop_of natRes ''generated_at''))"
    by (simp add: loadAll_resolved snapshot_def)
qed

text \<open>
  Witness for the amended C5: a malformed predictions body leaves everything as it was;
  two JSON objects are both applied; a predictions body \<open>null\<close> is skipped while the
  national report is applied.
\<close>

theorem loadAll_applies_together_witness:
  "request_rejects
     (net_of [(''/api/report/national'', ok_json (JObj [(''report'', JStr ''R'')])),
              (''/api/predict'', Responded \<lparr>status = 200, body = None\<rparr>)])
     (''/api'' @ ''/predict'')
   \<and> snapshot (fst (loadAll ''/api''
        (net_of [(''/api/report/national'', ok_json (JObj [(''report'', JStr ''R'')])),
                 (''/api/predict'', Responded \<lparr>status = 200, body = None\<rparr>)])
        ai_report_init)) = snapshot ai_report_init
   \<and> fetch_json (net_of [(''/api/report/national'', ok_json (JObj [(''report'', JStr ''R'')])),
                           (''/api/predict'', ok_json (JObj [(''predictions'', JArr [JStr ''P''])]))]
        (get_request (''/api'' @ ''/report/national''))) = Inr (JObj [(''report'', JStr ''R'')])
   \<and> fetch_json (net_of [(''/api/report/national'', ok_json (JObj [(''report'', JStr ''R'')])),
                           (''/api/predict'', ok_json (JObj [(''predictions'', JArr [JStr ''P''])]))]
        (get_request (''/api'' @ ''/predict''))) = Inr (JObj [(''predictions'', JArr [JStr ''P''])])
   \<and> snapshot (fst (loadAll ''/api''
        (net_of [(''/api/report/national'', ok_json (JObj [(''report'', JStr ''R'')])),
                 (''/api/predict'', ok_json (JObj [(''predictions'', JArr [JStr ''P''])]))])
        ai_report_init))
      = (Val (JArr [JStr ''P'']), Val (JStr ''R''), Undefined, Undefined)
   \<and> fetch_json (net_of [(''/api/report/national'', ok_json (JObj [(''report'', JStr ''R'')])),
                           (''/api/predict'', ok_json JNull)]
        (get_request (''/api'' @ ''/report/national''))) = Inr (JObj [(''report'', JStr ''R'')])
   \<and> fetch_json (net_of [(''/api/report/national'', ok_json (JObj [(''report'', JStr ''R'')])),
                           (''/api/predict'', ok_json JNull)]
        (get_request (''/api'' @ ''/predict''))) = Inr JNull
   \<and> snapshot (fst (loadAll ''/api''
        (net_of [(''/api/report/national'', ok_json (JObj [(''report'', JStr ''R'')])),
                 (''/api/predict'', ok_json JNull)])
        ai_report_init))
      = (Val (JArr []), Val (JStr ''R''), Undefined, Undefined)"
  using loadAll_applies_together
    [where net = "net_of [(''/api/report/national'', ok_json (JObj [(''report'', JStr ''R'')])),
                 (''/api/predict'', Responded \<lparr>status = 200, body = None\<rparr>)]"
       and api = "''/api''" and s = ai_report_init]
    loadAll_applies_together
    [where net = "net_of [(''/api/report/national'', ok_json (JObj [(''report'', JStr ''R'')])),
                 (''/api/predict'', ok_json (JObj [(''predictions'', JArr [JStr ''P''])]))]"
       and api = "''/api''" and natRes = "JObj [(''report'', JStr ''R'')]"
       and predRes = "JObj [(''predictions'', JArr [JStr ''P''])]" and s = ai_report_init]
    loadAll_applies_together
    [where net = "net_of [(''/api/report/national'', ok_json (JObj [(''report'', JStr ''R'')])),
                 (''/api/predict'', ok_json JNull)]"
       and api = "''/api''" and natRes = "JObj [(''report'', JStr ''R'')]"
       and predRes = JNull and s = ai_report_init]
  by (simp add: request_rejects_def net_of_def get_request_def fetch_json_def ok_json_def
      member_def or_else_def prop_of_def ai_report_init_def)

section \<open>Properties of the alert console\<close>

lemma generatePreview_no_selection:
  "disId s = [] \<Longrightarrow> generatePreview api net s = (s, [])"
  by (simp add: generatePreview_def)

lemma generatePreview_first_request:
  "disId s \<noteq> [] \<Longrightarrow> hd (snd (generatePreview api net s)) = send_request api (disId s)"
  by (simp add: generatePreview_def Let_def split: sum.splits)

lemma toast_refreshPastAlerts: "toast (refreshPastAlerts api net s) = toast s"
  by (simp add: refreshPastAlerts_def split: sum.splits)





text \<open>
  C1 (the code departs from it). Generating the preview is not free of effects: the handler
  \<open>generatePreview\<close> is the only operation of the console on alerts, and with disaster 1
  selected it posts to the send address \<open>/alert/send\<close>, then reloads the list of sent
  alerts and announces \<open>Alert sent to 3 recipients\<close>.
\<close>

theorem generatePreview_posts_to_send:
  "snd (generatePreview ''/api''
         (net_of [(''/api/alert/send'',
            ok_json (JObj [(''message_en'', JStr ''Flood alert''),
                           (''message_sw'', JStr ''Tahadhari''), (''recipients'', JNum ''3'')]))])
         (alert_console_init\<lparr>disId := ''1''\<rparr>))
     = [\<lparr>req_method = ''POST'', req_url = ''/api/alert/send'',
         req_body = Some (''{'' @ [CHR 0x22] @ ''disaster_id'' @ [CHR 0x22] @ '':1}'')\<rparr>,
        \<lparr>req_method = ''GET'', req_url = ''/api/alerts'', req_body = None\<rparr>]
   \<and> toast (fst (generatePreview ''/api''
         (net_of [(''/api/alert/send'',
            ok_json (JObj [(''message_en'', JStr ''Flood alert''),
                           (''message_sw'', JStr ''Tahadhari''), (''recipients'', JNum ''3'')]))])
         (alert_console_init\<lparr>disId := ''1''\<rparr>)))
     = Some \<lparr>msg = check_mark @ '' Alert sent to 3 recipients'', toast_type = ''success''\<rparr>"
  by code_simp




section \<open>Properties of the download script\<close>

lemma url_is_fallbackUrl: "url = fallbackUrl"
  by (simp add: url_def fallbackUrl_def)

lemma download_fallback_failed:
  assumes "get fallbackUrl (length (requested s)) = GetResponse code content" and "code \<noteq> 200"
  shows "download get fallbackUrl dest cb s =
           cb (log (''Failed: '' @ show_nat code)
                ((log (''Downloading from: '' @ fallbackUrl) s)
                   \<lparr>requested := requested s @ [fallbackUrl]\<rparr>))"
  using assms by (subst download.simps) (simp add: Let_def)

lemma run_script_first_failure:
  assumes a: "get url 0 = GetResponse code content" and b: "code \<noteq> 200"
  shows "run_script get =
           done_cb (log (''Failed: '' @ show_nat code)
                ((log (''Downloading from: '' @ url) script_init)
                   \<lparr>requested := requested script_init @ [url]\<rparr>))"
proof -
  have "get fallbackUrl (length (requested script_init)) = GetResponse code content"
    using a by (simp add: url_is_fallbackUrl script_init_def)
  from download_fallback_failed [where get = get and s = script_init and cb = done_cb
      and dest = "''./public/kenya-counties.json''", OF this b]
  show ?thesis
    by (simp only: run_script_def url_is_fallbackUrl)
qed

text \<open>
  Counterexample to C9 as stated: against a server that answers every request with status
  404 the script makes one request, not two; there is no fallback attempt.
\<close>

theorem download_fallback_counterexample:
  "length (requested (run_script (always_status 404))) = 1
   \<and> requested (run_script (always_status 404)) \<noteq> [url, fallbackUrl]
   \<and> console (run_script (always_status 404)) =
       [''Downloading from: '' @ url, ''Failed: 404'', ''Done'']"
  by code_simp

text \<open>
  C9, amended. The fallback address is the same string as the primary address. When the
  primary request returns a status other than 200, the script makes no second request: it
  prints the failure, calls the completion callback, which prints \<open>Done\<close>, and writes no
  file.
\<close>

theorem download_never_falls_back:
  "url = fallbackUrl
   \<and> (get url 0 = GetResponse code content \<and> code \<noteq> 200 \<longrightarrow>
        run_script get =
          \<lparr>console = [''Downloading from: '' @ url, ''Failed: '' @ show_nat code, ''Done''],
           requested = [url], files = []\<rparr>)"
proof (intro conjI impI)
  show "url = fallbackUrl" by (rule url_is_fallbackUrl)
next
  assume a: "get url 0 = GetResponse code content \<and> code \<noteq> 200"
  then have "run_script get =
           done_cb (log (''Failed: '' @ show_nat code)
                ((log (''Downloading from: '' @ url) script_init)
                   \<lparr>requested := requested script_init @ [url]\<rparr>))"
    using run_script_first_failure [where get = get and code = code and content = content]
    by simp
  then show "run_script get =
          \<lparr>console = [''Downloading from: '' @ url, ''Failed: '' @ show_nat code, ''Done''],
           requested = [url], files = []\<rparr>"
    by (simp add: done_cb_def log_def script_init_def)
qed

text \<open>Witness for the amended C9: the server that answers 404.\<close>

theorem download_never_falls_back_witness:
  "always_status 404 url 0 = GetResponse 404 [] \<and> (404::nat) \<noteq> 200
   \<and> run_script (always_status 404) =
          \<lparr>console = [''Downloading from: '' @ url, ''Failed: 404'', ''Done''],
           requested = [url], files = []\<rparr>"
proof -
  have "show_nat 404 = ''404''" by code_simp
  then show ?thesis
    using download_never_falls_back [of "always_status 404" 404 "[]"]
    by (simp add: always_status_def)
qed

section \<open>Properties of the length validation\<close>
















section \<open>Properties of the threshold rules\<close>

lemma count_open_zero: "count_open r t ds = 0 \<longleftrightarrow> \<not> list_ex (is_open r t) ds"
  by (simp add: count_open_def list_ex_iff filter_empty_conv)

lemma count_open_append:
  "count_open r t (ds @ [d]) = count_open r t ds + (if is_open r t d then 1 else 0)"
  by (simp add: count_open_def)

lemma count_open_auto_create:
  "count_open r t (auto_create cfg ds ob) =
     (if count_open r t ds = 0 \<and> obs_region ob = r \<and> exceeded cfg ob = Some t then 1
      else count_open r t ds)"
proof (cases "exceeded cfg ob")
  case None
  then show ?thesis by (simp add: auto_create_def)
next
  case (Some t')
  show ?thesis
  proof (cases "list_ex (is_open (obs_region ob) t') ds")
    case True
    then have "auto_create cfg ds ob = ds"
      using Some by (simp add: auto_create_def)
    moreover have "\<not> (count_open r t ds = 0 \<and> obs_region ob = r \<and> t' = t)"
      using True by (auto simp: count_open_zero)
    ultimately show ?thesis using Some by simp
  next
    case False
    then have "auto_create cfg ds ob =
        ds @ [\<lparr>d_id = fresh_id ds, d_type = t', d_region = obs_region ob,
               d_coords = centroid cfg (obs_region ob), d_origin = AutoDetected,
               d_status = Active\<rparr>]"
      using Some by (simp add: auto_create_def)
    then show ?thesis
      using False Some by (auto simp: count_open_append is_open_def count_open_zero)
  qed
qed

lemma count_open_foldl:
  "count_open r t (foldl (auto_create cfg) ds obs) =
     (if count_open r t ds = 0 \<and> (\<exists>ob\<in>set obs. obs_region ob = r \<and> exceeded cfg ob = Some t)
      then 1 else count_open r t ds)"
proof (induction obs arbitrary: ds)
  case Nil
  then show ?case by simp
next
  case (Cons ob obs)
  show ?case
    by (simp add: Cons.IH count_open_auto_create)
qed

lemma auto_create_extends:
  "\<exists>new. auto_create cfg ds ob = ds @ new
     \<and> (\<forall>d\<in>set new. d_origin d = AutoDetected \<and> d_status d = Active)"
  by (cases "exceeded cfg ob") (auto simp: auto_create_def)

lemma foldl_auto_create_extends:
  "\<exists>new. foldl (auto_create cfg) ds obs = ds @ new
     \<and> (\<forall>d\<in>set new. d_origin d = AutoDetected \<and> d_status d = Active)"
proof (induction obs arbitrary: ds)
  case Nil
  then show ?case by simp
next
  case (Cons ob obs)
  obtain n1 where n1: "auto_create cfg ds ob = ds @ n1"
    "\<forall>d\<in>set n1. d_origin d = AutoDetected \<and> d_status d = Active"
    using auto_create_extends by blast
  obtain n2 where n2: "foldl (auto_create cfg) (ds @ n1) obs = (ds @ n1) @ n2"
    "\<forall>d\<in>set n2. d_origin d = AutoDetected \<and> d_status d = Active"
    using Cons.IH by blast
  have "foldl (auto_create cfg) ds (ob # obs) = ds @ (n1 @ n2)"
    using n1(1) n2(1) by simp
  moreover have "\<forall>d\<in>set (n1 @ n2). d_origin d = AutoDetected \<and> d_status d = Active"
    using n1(2) n2(2) by auto
  ultimately show ?case by blast
qed

text \<open>
  C7. For every region and type of disaster, the threshold step of a Collector cycle
  creates a Disaster of that type for that region only when none is open there: after the
  step there is exactly one open Disaster of the type in the region if there was none and
  an observation of the cycle exceeds the threshold for it, and otherwise as many as
  before. The stored Disasters are kept as they were, the new ones are active and
  auto-detected, and when one was open already no new Disaster of that type is created for
  the region.
\<close>

theorem evaluate_thresholds_no_duplicate:
  "count_open r t (evaluate_thresholds cfg ds obs) =
     (if count_open r t ds = 0 \<and> (\<exists>ob\<in>set obs. obs_region ob = r \<and> exceeded cfg ob = Some t)
      then 1 else count_open r t ds)
   \<and> (\<exists>new. evaluate_thresholds cfg ds obs = ds @ new
         \<and> (\<forall>d\<in>set new. d_origin d = AutoDetected \<and> d_status d = Active)
         \<and> (0 < count_open r t ds \<longrightarrow> (\<forall>d\<in>set new. \<not> (d_type d = t \<and> d_region d = r))))"
proof -
  have c: "count_open r t (evaluate_thresholds cfg ds obs) =
     (if count_open r t ds = 0 \<and> (\<exists>ob\<in>set obs. obs_region ob = r \<and> exceeded cfg ob = Some t)
      then 1 else count_open r t ds)"
    unfolding evaluate_thresholds_def by (rule count_open_foldl)
  obtain new where new: "evaluate_thresholds cfg ds obs = ds @ new"
    "\<forall>d\<in>set new. d_origin d = AutoDetected \<and> d_status d = Active"
    unfolding evaluate_thresholds_def using foldl_auto_create_extends by blast
  have "\<forall>d\<in>set new. \<not> (d_type d = t \<and> d_region d = r)" if pos: "0 < count_open r t ds"
  proof
    fix d assume d: "d \<in> set new"
    show "\<not> (d_type d = t \<and> d_region d = r)"
    proof
      assume "d_type d = t \<and> d_region d = r"
      with d new(2) have "is_open r t d" by (simp add: is_open_def)
      with d have "filter (is_open r t) new \<noteq> []"
        by (auto simp: filter_empty_conv)
      then have "0 < length (filter (is_open r t) new)" by simp
      moreover have "count_open r t (ds @ new) = count_open r t ds + length (filter (is_open r t) new)"
        by (simp add: count_open_def)
      moreover have "count_open r t (ds @ new) = count_open r t ds"
        using c pos new(1) by simp
      ultimately show False by simp
    qed
  qed
  then have "evaluate_thresholds cfg ds obs = ds @ new
         \<and> (\<forall>d\<in>set new. d_origin d = AutoDetected \<and> d_status d = Active)
         \<and> (0 < count_open r t ds \<longrightarrow> (\<forall>d\<in>set new. \<not> (d_type d = t \<and> d_region d = r)))"
    using new by simp
  then have "\<exists>new. evaluate_thresholds cfg ds obs = ds @ new
         \<and> (\<forall>d\<in>set new. d_origin d = AutoDetected \<and> d_status d = Active)
         \<and> (0 < count_open r t ds \<longrightarrow> (\<forall>d\<in>set new. \<not> (d_type d = t \<and> d_region d = r)))"
    by (rule exI)
  with c show ?thesis by (rule conjI)
qed

text \<open>
  Witness for C7: region 4 has no flood; a cycle with a rainfall observation above the
  threshold creates one, and a second such cycle leaves it at one.
\<close>

theorem evaluate_thresholds_no_duplicate_witness:
  "count_open 4 Flood [] = 0
   \<and> (\<exists>ob\<in>set [heavy_rain]. obs_region ob = 4 \<and> exceeded example_config ob = Some Flood)
   \<and> count_open 4 Flood (evaluate_thresholds example_config [] [heavy_rain]) = 1
   \<and> 0 < count_open 4 Flood (evaluate_thresholds example_config [] [heavy_rain])
   \<and> count_open 4 Flood
        (evaluate_thresholds example_config
           (evaluate_thresholds example_config [] [heavy_rain]) [heavy_rain]) = 1"
proof -
  have a: "count_open 4 Flood [] = 0" by (simp add: count_open_def)
  have b: "\<exists>ob\<in>set [heavy_rain]. obs_region ob = 4 \<and> exceeded example_config ob = Some Flood"
    by (simp add: heavy_rain_def exceeded_def example_config_def)
  have c: "count_open 4 Flood (evaluate_thresholds example_config [] [heavy_rain]) = 1"
    using evaluate_thresholds_no_duplicate [of 4 Flood example_config "[]" "[heavy_rain]"] a b
    by simp
  have d: "count_open 4 Flood
        (evaluate_thresholds example_config
           (evaluate_thresholds example_config [] [heavy_rain]) [heavy_rain]) = 1"
    using evaluate_thresholds_no_duplicate
      [of 4 Flood example_config "evaluate_thresholds example_config [] [heavy_rain]" "[heavy_rain]"] c
    by simp
  from a b c d show ?thesis by simp
qed

section \<open>Properties of the recommendation\<close>

lemma map_fst_mark_top: "map fst (mark_top ws) = ws"
  by (cases ws) (simp_all add: comp_def)

lemma hd_mark_top: "ws \<noteq> [] \<Longrightarrow> hd (mark_top ws) = (hd ws, True)"
  by (cases ws) simp_all

lemma set_rank_candidates:
  "set (rank_candidates p dis ws) = {w \<in> set ws. w_status w = Available}"
  by (simp add: rank_candidates_def)

lemma sorted_rank_candidates:
  "sorted (map (\<lambda>w. - composite_score p dis w) (rank_candidates p dis ws))"
  by (simp add: rank_candidates_def)

text \<open>The first element of a list sorted by a key is the one whose key is below all others.\<close>

lemma hd_sort_key_least:
  fixes f :: "'a \<Rightarrow> int"
  assumes "x \<in> set xs" and "\<forall>y\<in>set xs. y \<noteq> x \<longrightarrow> f x < f y"
  shows "hd (sort_key f xs) = x"
proof -
  let ?s = "sort_key f xs"
  have ne: "?s \<noteq> []" using assms(1) by (metis empty_iff empty_set set_sort)
  then obtain h t where ht: "?s = h # t" by (cases ?s) auto
  have "sorted (map f ?s)" by simp
  with ht have le: "\<forall>y\<in>set ?s. f h \<le> f y" by auto
  have "x \<in> set ?s" using assms(1) by simp
  with le have "f h \<le> f x" by blast
  moreover have "h \<in> set xs" using ht by (metis list.set_intros(1) set_sort)
  ultimately have "h = x" using assms(2) by fastforce
  with ht show ?thesis by simp
qed

lemma score_role_outweighs:
  assumes "0 < distance_weight p" and "distance_weight p < role_weight p"
    and "suitability p (w_role b) (d_type dis) < suitability p (w_role a) (d_type dis)"
    and "distance p (w_coords a) (d_coords dis) \<le> distance p (w_coords b) (d_coords dis) + 1"
  shows "composite_score p dis b < composite_score p dis a"
proof -
  let ?sa = "suitability p (w_role a) (d_type dis)" and ?sb = "suitability p (w_role b) (d_type dis)"
  let ?da = "distance p (w_coords a) (d_coords dis)" and ?db = "distance p (w_coords b) (d_coords dis)"
  have "role_weight p * 1 \<le> role_weight p * (?sa - ?sb)"
    using assms(1,2,3) by (intro mult_left_mono) simp_all
  then have r: "role_weight p \<le> role_weight p * ?sa - role_weight p * ?sb"
    by (simp add: right_diff_distrib)
  have "distance_weight p * (?da - ?db) \<le> distance_weight p * 1"
    using assms(1,4) by (intro mult_left_mono) simp_all
  then have d: "distance_weight p * ?da - distance_weight p * ?db \<le> distance_weight p"
    by (simp add: right_diff_distrib)
  from r d assms(2) show ?thesis
    by (simp add: composite_score_def)
qed

lemma score_closer_better:
  assumes "0 < distance_weight p"
    and "suitability p (w_role a) (d_type dis) = suitability p (w_role b) (d_type dis)"
    and "distance p (w_coords a) (d_coords dis) < distance p (w_coords b) (d_coords dis)"
  shows "composite_score p dis b < composite_score p dis a"
  using assms by (simp add: composite_score_def)

lemma recommend_top:
  assumes "w \<in> set ws" and "w_status w = Available"
    and "\<forall>v\<in>set ws. v \<noteq> w \<and> w_status v = Available \<longrightarrow>
           composite_score p dis v < composite_score p dis w"
  shows "hd (recommend p dis ws) = (w, True)"
proof -
  let ?av = "filter (\<lambda>w. w_status w = Available) ws"
  have "hd (sort_key (\<lambda>w. - composite_score p dis w) ?av) = w"
    using assms by (intro hd_sort_key_least) auto
  then have "hd (rank_candidates p dis ws) = w"
    by (simp add: rank_candidates_def)
  moreover have "rank_candidates p dis ws \<noteq> []"
    using assms(1,2) set_rank_candidates [of p dis ws] by auto
  ultimately show ?thesis
    by (simp add: recommend_def hd_mark_top)
qed

text \<open>
  C8. With the role weighted higher than the distance (and the distance weighted above
  zero), for every Disaster and every list of Workers: the recommendation lists exactly
  the available Workers, by falling composite score; a Worker whose role suits the
  disaster better outranks one who is up to a kilometre closer; of two Workers with equally
  suitable roles the closer one scores higher; and of three available Workers at 2 km with
  a matching role, 1 km without and 5 km with a matching role, the one at 2 km comes first
  and is marked as recommended.
\<close>

theorem recommend_ranks_role_before_distance:
  assumes "0 < distance_weight p" and "distance_weight p < role_weight p"
  shows "set (map fst (recommend p dis ws)) = {w \<in> set ws. w_status w = Available}
    \<and> sorted (map (\<lambda>w. - composite_score p dis w) (map fst (recommend p dis ws)))
    \<and> (\<forall>a b. suitability p (w_role b) (d_type dis) < suitability p (w_role a) (d_type dis)
              \<and> distance p (w_coords a) (d_coords dis) \<le> distance p (w_coords b) (d_coords dis) + 1
            \<longrightarrow> composite_score p dis b < composite_score p dis a)
    \<and> (\<forall>a b. suitability p (w_role a) (d_type dis) = suitability p (w_role b) (d_type dis)
              \<and> distance p (w_coords a) (d_coords dis) < distance p (w_coords b) (d_coords dis)
            \<longrightarrow> composite_score p dis b < composite_score p dis a)
    \<and> (\<forall>w1 w2 w3.
          set ws = {w1, w2, w3}
          \<and> w_status w1 = Available \<and> w_status w2 = Available \<and> w_status w3 = Available
          \<and> suitability p (w_role w2) (d_type dis) < suitability p (w_role w1) (d_type dis)
          \<and> suitability p (w_role w3) (d_type dis) = suitability p (w_role w1) (d_type dis)
          \<and> distance p (w_coords w1) (d_coords dis) = 2
          \<and> distance p (w_coords w2) (d_coords dis) = 1
          \<and> distance p (w_coords w3) (d_coords dis) = 5
        \<longrightarrow> hd (recommend p dis ws) = (w1, True))"
proof (intro conjI allI impI)
  show "set (map fst (recommend p dis ws)) = {w \<in> set ws. w_status w = Available}"
    by (simp only: recommend_def map_fst_mark_top set_rank_candidates)
next
  show "sorted (map (\<lambda>w. - composite_score p dis w) (map fst (recommend p dis ws)))"
    by (simp only: recommend_def map_fst_mark_top sorted_rank_candidates)
next
  fix a b :: worker
  assume "suitability p (w_role b) (d_type dis) < suitability p (w_role a) (d_type dis)
              \<and> distance p (w_coords a) (d_coords dis) \<le> distance p (w_coords b) (d_coords dis) + 1"
  then show "composite_score p dis b < composite_score p dis a"
    using assms score_role_outweighs by blast
next
  fix a b :: worker
  assume "suitability p (w_role a) (d_type dis) = suitability p (w_role b) (d_type dis)
              \<and> distance p (w_coords a) (d_coords dis) < distance p (w_coords b) (d_coords dis)"
  then show "composite_score p dis b < composite_score p dis a"
    using assms(1) score_closer_better by blast
next
  fix w1 w2 w3 :: worker
  assume h: "set ws = {w1, w2, w3}
          \<and> w_status w1 = Available \<and> w_status w2 = Available \<and> w_status w3 = Available
          \<and> suitability p (w_role w2) (d_type dis) < suitability p (w_role w1) (d_type dis)
          \<and> suitability p (w_role w3) (d_type dis) = suitability p (w_role w1) (d_type dis)
          \<and> distance p (w_coords w1) (d_coords dis) = 2
          \<and> distance p (w_coords w2) (d_coords dis) = 1
          \<and> distance p (w_coords w3) (d_coords dis) = 5"
  have s2: "composite_score p dis w2 < composite_score p dis w1"
    using assms h by (intro score_role_outweighs) simp_all
  have s3: "composite_score p dis w3 < composite_score p dis w1"
    using assms(1) h by (intro score_closer_better) simp_all
  have "\<forall>v\<in>set ws. v \<noteq> w1 \<and> w_status v = Available \<longrightarrow>
           composite_score p dis v < composite_score p dis w1"
    using h s2 s3 by auto
  moreover have "w1 \<in> set ws" using h by simp
  ultimately show "hd (recommend p dis ws) = (w1, True)"
    using h by (intro recommend_top) simp_all
qed

text \<open>
  Witness for C8: divers suit a flood, weights 3 and 1; the diver at 2 km is recommended
  before the driver at 1 km and the diver at 5 km.
\<close>

theorem recommend_ranks_role_before_distance_witness:
  "0 < distance_weight example_policy
   \<and> distance_weight example_policy < role_weight example_policy
   \<and> set [worker_1km, worker_5km, worker_2km] = {worker_2km, worker_1km, worker_5km}
   \<and> w_status worker_2km = Available \<and> w_status worker_1km = Available
   \<and> w_status worker_5km = Available
   \<and> suitability example_policy (w_role worker_1km) (d_type example_flood)
       < suitability example_policy (w_role worker_2km) (d_type example_flood)
   \<and> suitability example_policy (w_role worker_5km) (d_type example_flood)
       = suitability example_policy (w_role worker_2km) (d_type example_flood)
   \<and> distance example_policy (w_coords worker_2km) (d_coords example_flood) = 2
   \<and> distance example_policy (w_coords worker_1km) (d_coords example_flood) = 1
   \<and> distance example_policy (w_coords worker_5km) (d_coords example_flood) = 5
   \<and> composite_score example_policy example_flood worker_1km
       < composite_score example_policy example_flood worker_2km
   \<and> composite_score example_policy example_flood worker_5km
       < composite_score example_policy example_flood worker_2km
   \<and> hd (recommend example_policy example_flood [worker_1km, worker_5km, worker_2km])
       = (worker_2km, True)"
proof -
  have w1: "0 < distance_weight example_policy"
    and w2: "distance_weight example_policy < role_weight example_policy"
    by (simp_all add: example_policy_def)
  have s: "set [worker_1km, worker_5km, worker_2km] = {worker_2km, worker_1km, worker_5km}"
    by auto
  have h: "w_status worker_2km = Available \<and> w_status worker_1km = Available
     \<and> w_status worker_5km = Available
     \<and> suitability example_policy (w_role worker_1km) (d_type example_flood)
         < suitability example_policy (w_role worker_2km) (d_type example_flood)
     \<and> suitability example_policy (w_role worker_5km) (d_type example_flood)
         = suitability example_policy (w_role worker_2km) (d_type example_flood)
     \<and> distance example_policy (w_coords worker_2km) (d_coords example_flood) = 2
     \<and> distance example_policy (w_coords worker_1km) (d_coords example_flood) = 1
     \<and> distance example_policy (w_coords worker_5km) (d_coords example_flood) = 5"
    by (simp add: example_policy_def example_flood_def worker_2km_def worker_1km_def
        worker_5km_def)
  note t = recommend_ranks_role_before_distance
    [OF w1 w2, of example_flood "[worker_1km, worker_5km, worker_2km]"]
  from t h have a: "composite_score example_policy example_flood worker_1km
       < composite_score example_policy example_flood worker_2km"
    by simp
  from t h have b: "composite_score example_policy example_flood worker_5km
       < composite_score example_policy example_flood worker_2km"
    by simp
  from t have "\<forall>w1 w2 w3.
          set [worker_1km, worker_5km, worker_2km] = {w1, w2, w3}
          \<and> w_status w1 = Available \<and> w_status w2 = Available \<and> w_status w3 = Available
          \<and> suitability example_policy (w_role w2) (d_type example_flood)
              < suitability example_policy (w_role w1) (d_type example_flood)
          \<and> suitability example_policy (w_role w3) (d_type example_flood)
              = suitability example_policy (w_role w1) (d_type example_flood)
          \<and> distance example_policy (w_coords w1) (d_coords example_flood) = 2
          \<and> distance example_policy (w_coords w2) (d_coords example_flood) = 1
          \<and> distance example_policy (w_coords w3) (d_coords example_flood) = 5
        \<longrightarrow> hd (recommend example_policy example_flood [worker_1km, worker_5km, worker_2km])
              = (w1, True)"
    by (elim conjE)
  with s h have c: "hd (recommend example_policy example_flood [worker_1km, worker_5km, worker_2km])
       = (worker_2km, True)"
    by blast
  from w1 w2 s h a b c show ?thesis by simp
qed

end
